theory Spec2Isabelle
  imports Complex_Main
begin

section \<open>JavaScript numbers\<close>

text \<open>
  A JavaScript \<^verbatim>\<open>number\<close> is a double: \<open>Num r\<close> is the finite double of value \<open>r\<close>, beside
  the three non-finite values. \<^verbatim>\<open>-0\<close> is identified with \<^verbatim>\<open>0\<close>. The arithmetic on frame
  indices below works on small integers, which doubles represent and combine without
  rounding; the arithmetic on coordinates rounds every result, as given in the next
  section.
\<close>

datatype number = Num real | NaN | PosInfinity | NegInfinity

text \<open>\<^verbatim>\<open>Math.floor\<close> on a finite number.\<close>

definition Math_floor :: "real \<Rightarrow> real" where
  "Math_floor r = of_int \<lfloor>r\<rfloor>"

text \<open>
  Addition, and the remainder operator \<^verbatim>\<open>%\<close>: the result is \<^verbatim>\<open>NaN\<close> when an operand is
  \<^verbatim>\<open>NaN\<close>, the dividend is infinite or the divisor is zero; it is the dividend when the
  divisor is infinite; otherwise it is \<open>n - d * q\<close> with \<open>q\<close> the quotient \<open>n / d\<close>
  truncated towards zero, so it has the sign of the dividend.
\<close>

fun js_plus :: "number \<Rightarrow> number \<Rightarrow> number" where
  "js_plus (Num a) (Num b) = Num (a + b)"
| "js_plus NaN _ = NaN"
| "js_plus _ NaN = NaN"
| "js_plus PosInfinity NegInfinity = NaN"
| "js_plus NegInfinity PosInfinity = NaN"
| "js_plus PosInfinity _ = PosInfinity"
| "js_plus _ PosInfinity = PosInfinity"
| "js_plus NegInfinity _ = NegInfinity"
| "js_plus _ NegInfinity = NegInfinity"

definition js_truncate :: "real \<Rightarrow> int" where
  "js_truncate r = (if 0 \<le> r then \<lfloor>r\<rfloor> else \<lceil>r\<rceil>)"

fun js_rem :: "number \<Rightarrow> number \<Rightarrow> number" where
  "js_rem (Num n) (Num d) = (if d = 0 then NaN else Num (n - d * of_int (js_truncate (n / d))))"
| "js_rem (Num n) PosInfinity = Num n"
| "js_rem (Num n) NegInfinity = Num n"
| "js_rem _ _ = NaN"

section \<open>Double-precision arithmetic\<close>

text \<open>
  The finite doubles are the numbers \<open>m * 2^e\<close> with integers \<open>\<bar>m\<bar> < 2^53\<close> and
  \<open>-1074 \<le> e \<le> 971\<close>. \<open>to_double r\<close> is the result of an operation whose exact value is
  \<open>r\<close>: the double nearest to \<open>r\<close>, the one with even mantissa when two are equally near,
  and an infinity when that rounding reaches \<open>2^1024\<close>. Between \<open>2^L\<close> and \<open>2^(L+1)\<close> the
  doubles are the multiples of \<open>2^(L-52)\<close>, below \<open>2^(-1022)\<close> the multiples of
  \<open>2^(-1074)\<close>.
\<close>

definition pow2 :: "int \<Rightarrow> real" where
  "pow2 e = 2 powr of_int e"

definition binade :: "real \<Rightarrow> int" where
  "binade r = \<lfloor>log 2 \<bar>r\<bar>\<rfloor>"

definition ulp :: "real \<Rightarrow> real" where
  "ulp r = pow2 (max (- 1074) (binade r - 52))"

definition round_half_even :: "real \<Rightarrow> int" where
  "round_half_even t =
     (let n = \<lfloor>t\<rfloor>; d = t - of_int n
      in if d < 1 / 2 then n else if 1 / 2 < d then n + 1 else if even n then n else n + 1)"

definition to_double :: "real \<Rightarrow> number" where
  "to_double r =
     (if r = 0 then Num 0
      else (let v = ulp r * of_int (round_half_even (r / ulp r))
            in if 2 ^ 1024 \<le> \<bar>v\<bar> then (if 0 < r then PosInfinity else NegInfinity)
               else Num v))"

text \<open>
  The operators \<^verbatim>\<open>+\<close>, \<^verbatim>\<open>-\<close>, \<^verbatim>\<open>*\<close> and \<^verbatim>\<open>/\<close> on numbers: the exact result rounded, with
  the rules for \<^verbatim>\<open>NaN\<close>, the infinities and division by zero.
\<close>

fun double_add :: "number \<Rightarrow> number \<Rightarrow> number" where
  "double_add (Num a) (Num b) = to_double (a + b)"
| "double_add NaN _ = NaN"
| "double_add _ NaN = NaN"
| "double_add PosInfinity NegInfinity = NaN"
| "double_add NegInfinity PosInfinity = NaN"
| "double_add PosInfinity _ = PosInfinity"
| "double_add _ PosInfinity = PosInfinity"
| "double_add NegInfinity _ = NegInfinity"
| "double_add _ NegInfinity = NegInfinity"

fun double_neg :: "number \<Rightarrow> number" where
  "double_neg (Num a) = Num (- a)"
| "double_neg NaN = NaN"
| "double_neg PosInfinity = NegInfinity"
| "double_neg NegInfinity = PosInfinity"

definition double_sub :: "number \<Rightarrow> number \<Rightarrow> number" where
  "double_sub a b = double_add a (double_neg b)"

fun double_mul :: "number \<Rightarrow> number \<Rightarrow> number" where
  "double_mul (Num a) (Num b) = to_double (a * b)"
| "double_mul NaN _ = NaN"
| "double_mul _ NaN = NaN"
| "double_mul (Num a) PosInfinity = (if a = 0 then NaN else if 0 < a then PosInfinity else NegInfinity)"
| "double_mul (Num a) NegInfinity = (if a = 0 then NaN else if 0 < a then NegInfinity else PosInfinity)"
| "double_mul PosInfinity (Num b) = (if b = 0 then NaN else if 0 < b then PosInfinity else NegInfinity)"
| "double_mul NegInfinity (Num b) = (if b = 0 then NaN else if 0 < b then NegInfinity else PosInfinity)"
| "double_mul PosInfinity PosInfinity = PosInfinity"
| "double_mul PosInfinity NegInfinity = NegInfinity"
| "double_mul NegInfinity PosInfinity = NegInfinity"
| "double_mul NegInfinity NegInfinity = PosInfinity"

fun double_div :: "number \<Rightarrow> number \<Rightarrow> number" where
  "double_div (Num a) (Num b) =
     (if b = 0 then (if a = 0 then NaN else if 0 < a then PosInfinity else NegInfinity)
      else to_double (a / b))"
| "double_div NaN _ = NaN"
| "double_div _ NaN = NaN"
| "double_div (Num a) PosInfinity = Num 0"
| "double_div (Num a) NegInfinity = Num 0"
| "double_div PosInfinity (Num b) = (if 0 \<le> b then PosInfinity else NegInfinity)"
| "double_div NegInfinity (Num b) = (if 0 \<le> b then NegInfinity else PosInfinity)"
| "double_div _ _ = NaN"

text \<open>
  \<^verbatim>\<open>Math.floor\<close> on any number: the floor of a double is a double, and \<^verbatim>\<open>NaN\<close> and the
  infinities are returned as they are.
\<close>

fun floor_number :: "number \<Rightarrow> number" where
  "floor_number (Num r) = Num (of_int \<lfloor>r\<rfloor>)"
| "floor_number n = n"

text \<open>\<^verbatim>\<open>Math.PI\<close> is the double nearest to \<open>\<pi>\<close>, 3.141592653589793.\<close>

definition Math_PI :: real where
  "Math_PI = 884279719003555 / 2 ^ 48"

text \<open>
  \<^verbatim>\<open>Math.cos\<close>, \<^verbatim>\<open>Math.tan\<close>, \<^verbatim>\<open>Math.log\<close> and \<^verbatim>\<open>Math.pow\<close> are functions of the platform,
  not of the repository, and the language leaves their values implementation-approximated.
  They are parameters of the model: a \<open>platform\<close> gives each of them as a function on
  numbers, special values included. Of \<^verbatim>\<open>Math.pow\<close> one fact is taken: for the base 2 and an
  exponent that is an integer between -1022 and 1023 the result is the power of two
  itself, which is a double. For all other arguments \<open>Math_pow\<close> is what the platform
  gives.
\<close>

record platform =
  Math_cos :: "number \<Rightarrow> number"
  Math_tan :: "number \<Rightarrow> number"
  Math_log :: "number \<Rightarrow> number"
  pow_approximation :: "number \<Rightarrow> number \<Rightarrow> number"

definition Math_pow :: "platform \<Rightarrow> number \<Rightarrow> number \<Rightarrow> number" where
  "Math_pow M b e =
     (case (b, e) of
        (Num p, Num q) \<Rightarrow>
          if p = 2 \<and> of_int \<lfloor>q\<rfloor> = q \<and> - 1022 \<le> q \<and> q \<le> 1023 then Num (2 powr q)
          else pow_approximation M b e
      | _ \<Rightarrow> pow_approximation M b e)"

text \<open>
  A platform on which properties are evaluated: its functions return the double nearest
  to the exact value (the logarithm with \<^verbatim>\<open>-Infinity\<close> at zero and \<^verbatim>\<open>NaN\<close> below), and
  \<^verbatim>\<open>NaN\<close> outside the finite arguments.
\<close>

definition sample_Math :: platform where
  "sample_Math =
     \<lparr>Math_cos = (\<lambda>n. case n of Num r \<Rightarrow> to_double (cos r) | _ \<Rightarrow> NaN),
      Math_tan = (\<lambda>n. case n of Num r \<Rightarrow> to_double (tan r) | _ \<Rightarrow> NaN),
      Math_log = (\<lambda>n. case n of
                         Num r \<Rightarrow> if r < 0 then NaN else if r = 0 then NegInfinity
                                  else to_double (ln r)
                       | PosInfinity \<Rightarrow> PosInfinity
                       | _ \<Rightarrow> NaN),
      pow_approximation = (\<lambda>b e. case (b, e) of
                                    (Num p, Num q) \<Rightarrow> if 0 < p then to_double (p powr q) else NaN
                                  | _ \<Rightarrow> NaN)\<rparr>"

section \<open>Radar view: tile coordinates\<close>

text \<open>
  \<^verbatim>\<open>getTileCoords\<close> of \<^verbatim>\<open>components/views/radar-view.tsx\<close>, with every operation in double
  precision and the platform's \<^verbatim>\<open>Math\<close> functions:
  \<^verbatim>\<open>
  const x = Math.floor(((lon + 180) / 360) * Math.pow(2, zoom))
  const y = Math.floor(((1 - Math.log(Math.tan((lat * Math.PI) / 180)
              + 1 / Math.cos((lat * Math.PI) / 180)) / Math.PI) / 2) * Math.pow(2, zoom))
  return { x, y }
  \<close>
  The object \<^verbatim>\<open>{ x, y }\<close> is the pair \<open>(x, y)\<close>.
\<close>

type_synonym tile = "number \<times> number"

definition getTileCoords :: "platform \<Rightarrow> number \<Rightarrow> number \<Rightarrow> number \<Rightarrow> tile" where
  "getTileCoords M lat lon zoom =
     (let x = floor_number
                (double_mul (double_div (double_add lon (Num 180)) (Num 360))
                            (Math_pow M (Num 2) zoom));
          y = floor_number
                (double_mul
                   (double_div
                      (double_sub (Num 1)
                         (double_div
                            (Math_log M
                               (double_add
                                  (Math_tan M (double_div (double_mul lat (Num Math_PI)) (Num 180)))
                                  (double_div (Num 1)
                                     (Math_cos M (double_div (double_mul lat (Num Math_PI)) (Num 180))))))
                            (Num Math_PI)))
                      (Num 2))
                   (Math_pow M (Num 2) zoom))
      in (x, y))"

text \<open>
  The second radar view among the sources, the one that keeps the location in a state of
  its own, has no \<^verbatim>\<open>getTileCoords\<close>; it writes the two expressions inline in both tile
  URLs, with the constant 128:
  \<^verbatim>\<open>
  Math.floor(((location.lon + 180) / 360) * 128)
  Math.floor(((1 - Math.log(Math.tan((location.lat * Math.PI) / 180)
     + 1 / Math.cos((location.lat * Math.PI) / 180)) / Math.PI) / 2) * 128)
  \<close>
\<close>

definition inlineTileCoords :: "platform \<Rightarrow> number \<Rightarrow> number \<Rightarrow> tile" where
  "inlineTileCoords M lat lon =
     (floor_number (double_mul (double_div (double_add lon (Num 180)) (Num 360)) (Num 128)),
      floor_number
        (double_mul
           (double_div
              (double_sub (Num 1)
                 (double_div
                    (Math_log M
                       (double_add
                          (Math_tan M (double_div (double_mul lat (Num Math_PI)) (Num 180)))
                          (double_div (Num 1)
                             (Math_cos M (double_div (double_mul lat (Num Math_PI)) (Num 180))))))
                    (Num Math_PI)))
              (Num 2))
           (Num 128)))"

text \<open>
  The reference slippy-map formula as the specification writes it, in exact arithmetic, at
  a zoom level given as a natural number:
  \<open>x = floor((lon + 180) / 360 * 2^zoom)\<close>,
  \<open>y = floor((1 - ln(tan(lat\<cdot>\<pi>/180) + 1/cos(lat\<cdot>\<pi>/180)) / \<pi>) / 2 * 2^zoom)\<close>.
\<close>

definition slippy_x :: "real \<Rightarrow> nat \<Rightarrow> int" where
  "slippy_x lon z = \<lfloor>(lon + 180) / 360 * 2 ^ z\<rfloor>"

definition slippy_y :: "real \<Rightarrow> nat \<Rightarrow> int" where
  "slippy_y lat z = \<lfloor>(1 - ln (tan (lat * pi / 180) + 1 / cos (lat * pi / 180)) / pi) / 2 * 2 ^ z\<rfloor>"

section \<open>Radar view: frames and playback\<close>

text \<open>
  The manifest (\<^verbatim>\<open>RainViewerData\<close>, its \<^verbatim>\<open>radar\<close> member) and the state of the view. The
  view's \<^verbatim>\<open>error\<close> state is the field \<open>radarError\<close> here, to keep it apart from the
  location store's \<^verbatim>\<open>error\<close>. Both radar views declare the same state and the same
  \<^verbatim>\<open>loadRadarData\<close>, timer effect, \<^verbatim>\<open>jumpToTime\<close> and playback controls.
\<close>

record frame =
  time :: real
  path :: string

record RainViewerData =
  past :: "frame list"
  nowcast :: "frame list"

record RadarView =
  radarData :: "RainViewerData option"
  currentFrame :: number
  isPlaying :: bool
  loading :: bool
  radarError :: "string option"

text \<open>The view as \<^verbatim>\<open>useState\<close> creates it.\<close>

definition RadarView_initial :: RadarView where
  "RadarView_initial =
     \<lparr>radarData = None, currentFrame = Num 0, isPlaying = False, loading = True,
      radarError = None\<rparr>"

text \<open>
  \<^verbatim>\<open>const allFrames = radarData ? [...(radarData.radar.past || []), ...(radarData.radar.nowcast || [])] : []\<close>
\<close>

definition allFrames :: "RadarView \<Rightarrow> frame list" where
  "allFrames s = (case radarData s of None \<Rightarrow> [] | Some d \<Rightarrow> past d @ nowcast d)"

text \<open>
  \<^verbatim>\<open>loadRadarData\<close>: the fetch either fails (network or parse error), which sets the error
  message only, or delivers a manifest, which is stored with the index reset to
  \<^verbatim>\<open>Math.max(0, pastFrames - 1)\<close>.
\<close>

datatype fetched = FetchError | Manifest RainViewerData

definition loadRadarData :: "RadarView \<Rightarrow> fetched \<Rightarrow> RadarView" where
  "loadRadarData s r =
     (case r of
        FetchError \<Rightarrow> s\<lparr>radarError := Some ''Radardaten konnten nicht geladen werden''\<rparr>
      | Manifest d \<Rightarrow>
          (let pastFrames = real (length (past d))
           in s\<lparr>radarData := Some d, currentFrame := Num (max 0 (pastFrames - 1))\<rparr>))"

text \<open>
  The effect that runs on mount:
  \<^verbatim>\<open>setLoading(true); await loadRadarData(); setLoading(false)\<close>.
\<close>

definition init :: "RadarView \<Rightarrow> fetched \<Rightarrow> RadarView" where
  "init s r = (loadRadarData (s\<lparr>loading := True\<rparr>) r)\<lparr>loading := False\<rparr>"

text \<open>
  One firing of the interval timer. The effect installs the timer only when
  \<^verbatim>\<open>isPlaying\<close> holds and a manifest is loaded (\<^verbatim>\<open>if (!isPlaying || !radarData) return\<close>);
  the callback is \<^verbatim>\<open>setCurrentFrame((prev) => (prev + 1) % allFrames.length)\<close>.
\<close>

definition tick :: "RadarView \<Rightarrow> RadarView" where
  "tick s =
     (if isPlaying s then
        (case radarData s of
           None \<Rightarrow> s
         | Some d \<Rightarrow>
             s\<lparr>currentFrame :=
                  js_rem (js_plus (currentFrame s) (Num 1)) (Num (real (length (past d @ nowcast d))))\<rparr>)
      else s)"

text \<open>
  \<^verbatim>\<open>
  const jumpToTime = (minutesFromNow: number) => {
    if (!radarData) return
    const pastCount = radarData.radar.past?.length || 0
    const targetFrame = pastCount - 1 + Math.floor(minutesFromNow / 10)
    const clampedFrame = Math.max(0, Math.min(allFrames.length - 1, targetFrame))
    setCurrentFrame(clampedFrame)
    setIsPlaying(false)
  }
  \<close>
  on a finite argument (the call sites pass -30, 0, 30 and 60).
\<close>

definition jumpToTime :: "RadarView \<Rightarrow> real \<Rightarrow> RadarView" where
  "jumpToTime s minutesFromNow =
     (case radarData s of
        None \<Rightarrow> s
      | Some d \<Rightarrow>
          (let pastCount = real (length (past d));
               targetFrame = pastCount - 1 + Math_floor (minutesFromNow / 10);
               clampedFrame = max 0 (min (real (length (allFrames s)) - 1) targetFrame)
           in s\<lparr>currentFrame := Num clampedFrame, isPlaying := False\<rparr>))"

text \<open>
  Modelled from the spec: the \<^verbatim>\<open>Slider\<close> component (\<^verbatim>\<open>components/ui/slider\<close>) is not among
  the sources. The view passes it \<^verbatim>\<open>max={allFrames.length - 1}\<close> and no minimum, and installs
  what it reports as the frame index; the specification says of this operation that it
  sets the index to a value clamped into \<open>[0, totalFrames - 1]\<close>.
\<close>

definition Slider_value :: "real \<Rightarrow> real \<Rightarrow> real" where
  "Slider_value mx v = max 0 (min mx v)"

text \<open>
  The playback controls: skip to start, play/pause, skip to end, and the slider. They are
  rendered only after loading has finished (\<^verbatim>\<open>if (loading) return ...\<close>) and under
  \<^verbatim>\<open>{allFrames.length > 0 && (...)}\<close>; \<open>None\<close> says that the control does not exist in the
  rendered view, so that it cannot be operated.
\<close>

datatype control = SkipBack | PlayPause | SkipForward | SliderChange real

definition playbackControls :: "RadarView \<Rightarrow> control \<Rightarrow> RadarView option" where
  "playbackControls s c =
     (if loading s then None
      else if 0 < length (allFrames s) then
        Some (case c of
                SkipBack \<Rightarrow> s\<lparr>currentFrame := Num 0\<rparr>
              | PlayPause \<Rightarrow> s\<lparr>isPlaying := \<not> isPlaying s\<rparr>
              | SkipForward \<Rightarrow> s\<lparr>currentFrame := Num (real (length (allFrames s)) - 1)\<rparr>
              | SliderChange v \<Rightarrow>
                  s\<lparr>currentFrame := Num (Slider_value (real (length (allFrames s)) - 1) v)\<rparr>)
      else None)"

text \<open>
  The operations \<open>togglePlay\<close> and \<open>scrub\<close> of the specification are the play/pause button
  and the slider; where the control is not rendered the view stays as it is.
\<close>

definition operate :: "RadarView \<Rightarrow> control \<Rightarrow> RadarView" where
  "operate s c = (case playbackControls s c of None \<Rightarrow> s | Some s' \<Rightarrow> s')"

definition togglePlay :: "RadarView \<Rightarrow> RadarView" where
  "togglePlay s = operate s PlayPause"

definition scrub :: "RadarView \<Rightarrow> real \<Rightarrow> RadarView" where
  "scrub s v = operate s (SliderChange v)"

text \<open>The index is a finite number within the frame sequence.\<close>

definition in_bounds :: "RadarView \<Rightarrow> bool" where
  "in_bounds s =
     (case currentFrame s of
        Num i \<Rightarrow> 0 \<le> i \<and> i < real (length (allFrames s))
      | _ \<Rightarrow> False)"

text \<open>
  Concrete data on which the properties below are evaluated: a manifest of two past frames
  and one forecast frame, ten minutes apart, and an empty manifest.
\<close>

definition sample_manifest :: RainViewerData where
  "sample_manifest =
     \<lparr>past = [\<lparr>time = 1700000000, path = ''/v2/radar/1700000000''\<rparr>,
              \<lparr>time = 1700000600, path = ''/v2/radar/1700000600''\<rparr>],
      nowcast = [\<lparr>time = 1700001200, path = ''/v2/radar/nowcast_1700001200''\<rparr>]\<rparr>"

definition empty_manifest :: RainViewerData where
  "empty_manifest = \<lparr>past = [], nowcast = []\<rparr>"

text \<open>The clamp of the specification, written out by cases.\<close>

definition clamp :: "int \<Rightarrow> int \<Rightarrow> int \<Rightarrow> int" where
  "clamp lo hi v = (if v < lo then lo else if hi < v then hi else v)"

section \<open>Location store\<close>

text \<open>
  \<^verbatim>\<open>LocationState\<close> and the three pieces of state of \<^verbatim>\<open>LocationProvider\<close>. A coordinate is
  \<^verbatim>\<open>number | null\<close>; \<open>None\<close> is \<^verbatim>\<open>null\<close>.
\<close>

datatype LocationSource = gps | manual

record LocationState =
  lat :: "number option"
  lon :: "number option"
  cityLabel :: string
  source :: LocationSource
  lastUpdated :: number

record LocationProvider =
  location :: LocationState
  isLoading :: bool
  error :: "string option"

definition DEFAULT_LOCATION :: LocationState where
  "DEFAULT_LOCATION =
     \<lparr>lat = None, lon = None, cityLabel = [], source = manual, lastUpdated = Num 0\<rparr>"

text \<open>The provider as \<^verbatim>\<open>useState\<close> creates it.\<close>

definition LocationProvider_initial :: LocationProvider where
  "LocationProvider_initial = \<lparr>location = DEFAULT_LOCATION, isLoading = False, error = None\<rparr>"

subsection \<open>Acquiring the position\<close>

text \<open>
  What the platform answers to \<^verbatim>\<open>navigator.geolocation.getCurrentPosition\<close>: there is no
  \<^verbatim>\<open>navigator.geolocation\<close>, or the error callback is called with a code, or the success
  callback is called with finite coordinates. The codes are the constants of the
  platform's \<^verbatim>\<open>GeolocationPositionError\<close>.
\<close>

datatype geolocation = Unsupported | PositionError nat | Position real real

definition PERMISSION_DENIED :: nat where
  "PERMISSION_DENIED = 1"

definition POSITION_UNAVAILABLE :: nat where
  "POSITION_UNAVAILABLE = 2"

definition TIMEOUT :: nat where
  "TIMEOUT = 3"

text \<open>
  What the reverse-geocoding request gives: an exception inside the \<^verbatim>\<open>try\<close> block (the
  request fails, the body is not JSON, or the document has no members to read), or the
  value of \<^verbatim>\<open>data.results?.[0]?.name\<close>, which is \<open>None\<close> when that is undefined.
\<close>

datatype geocoding = GeocodingFailed | GeocodingName "string option"

datatype settlement = Resolved | Rejected

text \<open>
  The messages shown to the user. A character outside ASCII is given by its code unit
  (\<open>0xFC\<close> is u-umlaut).
\<close>

definition MSG_UNSUPPORTED :: string where
  "MSG_UNSUPPORTED = ''Geolocation wird von Ihrem Browser nicht unterst'' @ [CHR 0xFC] @ ''tzt.''"

definition MSG_PERMISSION_DENIED :: string where
  "MSG_PERMISSION_DENIED =
     ''Standortzugriff wurde verweigert. Bitte Standortfreigabe im Browser aktivieren oder PLZ/Ort eingeben.''"

definition MSG_POSITION_UNAVAILABLE :: string where
  "MSG_POSITION_UNAVAILABLE = ''Standortinformationen sind nicht verf'' @ [CHR 0xFC] @ ''gbar.''"

definition MSG_TIMEOUT :: string where
  "MSG_TIMEOUT = ''Zeit'' @ [CHR 0xFC] @ ''berschreitung bei der Standortabfrage.''"

definition MSG_UNKNOWN :: string where
  "MSG_UNKNOWN = ''Ein unbekannter Fehler ist aufgetreten.''"

text \<open>
  \<^verbatim>\<open>updateFromGPS\<close>, given the platform's answer, the outcome of the geocoding request and
  the value of \<^verbatim>\<open>Date.now()\<close>. It returns the provider's state afterwards and how the
  promise is settled. Without geolocation support it sets the error and returns. Otherwise
  it first runs \<^verbatim>\<open>setIsLoading(true); setError(null)\<close>; the error callback runs
  \<^verbatim>\<open>setIsLoading(false)\<close>, the \<^verbatim>\<open>switch\<close> on \<^verbatim>\<open>err.code\<close> and \<^verbatim>\<open>resolve()\<close>; the success
  callback runs \<^verbatim>\<open>setLocation\<close> in the \<^verbatim>\<open>try\<close> block with
  \<^verbatim>\<open>name = data.results?.[0]?.name || "Aktueller Standort"\<close>, or in the \<^verbatim>\<open>catch\<close> block with
  the fixed label, then \<^verbatim>\<open>setIsLoading(false)\<close> and \<^verbatim>\<open>resolve()\<close>.
\<close>

definition updateFromGPS ::
  "LocationProvider \<Rightarrow> geolocation \<Rightarrow> geocoding \<Rightarrow> real \<Rightarrow> LocationProvider \<times> settlement" where
  "updateFromGPS s g r now =
     (case g of
        Unsupported \<Rightarrow> (s\<lparr>error := Some MSG_UNSUPPORTED\<rparr>, Resolved)
      | PositionError code \<Rightarrow>
          (let s1 = s\<lparr>isLoading := True, error := None\<rparr>;
               s2 = s1\<lparr>isLoading := False\<rparr>;
               s3 = (if code = PERMISSION_DENIED then s2\<lparr>error := Some MSG_PERMISSION_DENIED\<rparr>
                     else if code = POSITION_UNAVAILABLE then s2\<lparr>error := Some MSG_POSITION_UNAVAILABLE\<rparr>
                     else if code = TIMEOUT then s2\<lparr>error := Some MSG_TIMEOUT\<rparr>
                     else s2\<lparr>error := Some MSG_UNKNOWN\<rparr>)
           in (s3, Resolved))
      | Position latitude longitude \<Rightarrow>
          (let s1 = s\<lparr>isLoading := True, error := None\<rparr>;
               s2 = (case r of
                       GeocodingName n \<Rightarrow>
                         (let name = (case n of
                                        None \<Rightarrow> ''Aktueller Standort''
                                      | Some nm \<Rightarrow> if nm = [] then ''Aktueller Standort'' else nm)
                          in s1\<lparr>location := \<lparr>lat = Some (Num latitude), lon = Some (Num longitude),
                                             cityLabel = name, source = gps,
                                             lastUpdated = Num now\<rparr>\<rparr>)
                     | GeocodingFailed \<Rightarrow>
                         s1\<lparr>location := \<lparr>lat = Some (Num latitude), lon = Some (Num longitude),
                                          cityLabel = ''Aktueller Standort'', source = gps,
                                          lastUpdated = Num now\<rparr>\<rparr>)
           in (s2\<lparr>isLoading := False\<rparr>, Resolved)))"

text \<open>
  \<^verbatim>\<open>updateManual(lat, lon, label)\<close>, given the value of \<^verbatim>\<open>Date.now()\<close>: the arguments are
  of type \<^verbatim>\<open>number\<close> and are stored as they come. \<^verbatim>\<open>clearError\<close> resets the error only.
\<close>

definition updateManual ::
  "LocationProvider \<Rightarrow> number \<Rightarrow> number \<Rightarrow> string \<Rightarrow> real \<Rightarrow> LocationProvider" where
  "updateManual s lat' lon' label now =
     s\<lparr>location := \<lparr>lat = Some lat', lon = Some lon', cityLabel = label, source = manual,
                      lastUpdated = Num now\<rparr>,
       error := None\<rparr>"

definition clearError :: "LocationProvider \<Rightarrow> LocationProvider" where
  "clearError s = s\<lparr>error := None\<rparr>"

subsection \<open>Persistence\<close>

text \<open>
  A stored item is a string. It is represented by the JSON document that the string is
  the text of, or by \<open>NotJSON\<close> for a string that \<^verbatim>\<open>JSON.parse\<close> rejects (and for the empty
  string, which \<^verbatim>\<open>if (saved)\<close> skips); the text itself is not modelled. \<^verbatim>\<open>JSON.stringify\<close>
  writes a finite number as a number and \<^verbatim>\<open>NaN\<close> or an infinity as \<^verbatim>\<open>null\<close>.
\<close>

datatype json =
  JNull | JBool bool | JNumber real | JString string | JArray "json list"
  | JObject "(string \<times> json) list"

datatype item = Document json | NotJSON

type_synonym localStorage = "string \<rightharpoonup> item"

definition LOCATION_STORAGE_KEY :: string where
  "LOCATION_STORAGE_KEY = ''wetterpendeln-location-state''"

definition LEGACY_STORAGE_KEY :: string where
  "LEGACY_STORAGE_KEY = ''wetterpendeln-last-location''"

definition json_of_number :: "number \<Rightarrow> json" where
  "json_of_number n = (case n of Num r \<Rightarrow> JNumber r | _ \<Rightarrow> JNull)"

definition json_of_coordinate :: "number option \<Rightarrow> json" where
  "json_of_coordinate c = (case c of None \<Rightarrow> JNull | Some n \<Rightarrow> json_of_number n)"

definition json_of_source :: "LocationSource \<Rightarrow> json" where
  "json_of_source src = (case src of gps \<Rightarrow> JString ''gps'' | manual \<Rightarrow> JString ''manual'')"

text \<open>\<^verbatim>\<open>JSON.stringify(location)\<close> and the record in the earlier format.\<close>

definition stringify_location :: "LocationState \<Rightarrow> json" where
  "stringify_location l =
     JObject [(''lat'', json_of_coordinate (lat l)),
              (''lon'', json_of_coordinate (lon l)),
              (''cityLabel'', JString (cityLabel l)),
              (''source'', json_of_source (source l)),
              (''lastUpdated'', json_of_number (lastUpdated l))]"

definition stringify_legacy :: "LocationState \<Rightarrow> json" where
  "stringify_legacy l =
     JObject [(''lat'', json_of_coordinate (lat l)),
              (''lon'', json_of_coordinate (lon l)),
              (''name'', JString (cityLabel l))]"

text \<open>
  The effect that saves the location whenever it has changed. \<^verbatim>\<open>localStorage.setItem\<close> can
  throw (the quota is exceeded); the exception is caught and logged, and what was written
  before it stays.
\<close>

datatype writing = WriteOk | FirstWriteFails | SecondWriteFails

definition persist :: "writing \<Rightarrow> LocationState \<Rightarrow> localStorage \<Rightarrow> localStorage" where
  "persist w l st =
     (if lat l \<noteq> None \<and> lon l \<noteq> None then
        (case w of
           FirstWriteFails \<Rightarrow> st
         | SecondWriteFails \<Rightarrow> st(LOCATION_STORAGE_KEY \<mapsto> Document (stringify_location l))
         | WriteOk \<Rightarrow> st(LOCATION_STORAGE_KEY \<mapsto> Document (stringify_location l),
                          LEGACY_STORAGE_KEY \<mapsto> Document (stringify_legacy l)))
      else st)"

text \<open>
  The effect that loads the location on mount runs \<^verbatim>\<open>setLocation(JSON.parse(saved))\<close>: the
  parsed value becomes the location as it is, with no check. \<open>LocationState_of_json\<close> reads
  a parsed value that has the members of the \<^verbatim>\<open>LocationState\<close> interface with values of
  the declared types; for any other value the location is no \<^verbatim>\<open>LocationState\<close> any more,
  which \<open>Untyped\<close> records. Of a member that occurs twice in a document, \<^verbatim>\<open>JSON.parse\<close>
  keeps the last.
\<close>

definition property :: "json \<Rightarrow> string \<Rightarrow> json option" where
  "property j k = (case j of JObject ms \<Rightarrow> map_of (rev ms) k | _ \<Rightarrow> None)"

definition coordinate_of_json :: "json option \<Rightarrow> number option option" where
  "coordinate_of_json p =
     (case p of
        Some JNull \<Rightarrow> Some None
      | Some (JNumber r) \<Rightarrow> Some (Some (Num r))
      | _ \<Rightarrow> None)"

definition string_of_json :: "json option \<Rightarrow> string option" where
  "string_of_json p = (case p of Some (JString t) \<Rightarrow> Some t | _ \<Rightarrow> None)"

definition source_of_json :: "json option \<Rightarrow> LocationSource option" where
  "source_of_json p =
     (case string_of_json p of
        None \<Rightarrow> None
      | Some t \<Rightarrow> if t = ''gps'' then Some gps else if t = ''manual'' then Some manual else None)"

definition number_of_json :: "json option \<Rightarrow> number option" where
  "number_of_json p = (case p of Some (JNumber r) \<Rightarrow> Some (Num r) | _ \<Rightarrow> None)"

definition LocationState_of_json :: "json \<Rightarrow> LocationState option" where
  "LocationState_of_json j =
     (case coordinate_of_json (property j ''lat'') of None \<Rightarrow> None | Some la \<Rightarrow>
      case coordinate_of_json (property j ''lon'') of None \<Rightarrow> None | Some lo \<Rightarrow>
      case string_of_json (property j ''cityLabel'') of None \<Rightarrow> None | Some c \<Rightarrow>
      case source_of_json (property j ''source'') of None \<Rightarrow> None | Some src \<Rightarrow>
      case number_of_json (property j ''lastUpdated'') of None \<Rightarrow> None | Some t \<Rightarrow>
        Some \<lparr>lat = la, lon = lo, cityLabel = c, source = src, lastUpdated = t\<rparr>)"

datatype rehydrated = Installed LocationProvider | Untyped json

definition rehydrate :: "localStorage \<Rightarrow> LocationProvider \<Rightarrow> rehydrated" where
  "rehydrate st s =
     (case st LOCATION_STORAGE_KEY of
        None \<Rightarrow> Installed s
      | Some NotJSON \<Rightarrow> Installed s
      | Some (Document j) \<Rightarrow>
          (case LocationState_of_json j of
             Some l \<Rightarrow> Installed (s\<lparr>location := l\<rparr>)
           | None \<Rightarrow> Untyped j))"

text \<open>The invariant on the coordinates: both are null or neither is.\<close>

definition coordinates_paired :: "LocationState \<Rightarrow> bool" where
  "coordinates_paired l = ((lat l = None) = (lon l = None))"

section \<open>Properties of double-precision arithmetic\<close>

lemma pow2_pos [simp]: "0 < pow2 e"
  by (simp add: pow2_def)

lemma pow2_nonneg [simp]: "0 \<le> pow2 e"
  by (simp add: pow2_def)

lemma scaled_nonneg:
  assumes "0 \<le> m"
  shows "0 \<le> of_int m * pow2 e"
  using assms by (intro mult_nonneg_nonneg) simp_all

lemma pow2_add: "pow2 (a + b) = pow2 a * pow2 b"
  by (simp add: pow2_def powr_add)

lemma pow2_mono: "a \<le> b \<Longrightarrow> pow2 a \<le> pow2 b"
  by (simp add: pow2_def)

lemma pow2_nat: "0 \<le> e \<Longrightarrow> pow2 e = of_int (2 ^ nat e)"
  by (simp add: pow2_def powr_real_of_int)

lemma pow2_eval: "pow2 e = (if 0 \<le> e then 2 ^ nat e else 1 / 2 ^ nat (- e))"
  by (simp add: pow2_def powr_int)

subsection \<open>Rounding between two doubles\<close>

lemma round_half_even_ge:
  assumes "of_int i \<le> t"
  shows "i \<le> round_half_even t"
proof -
  have "i \<le> \<lfloor>t\<rfloor>" using assms by (simp add: le_floor_iff)
  then show ?thesis by (simp add: round_half_even_def Let_def)
qed

lemma round_half_even_le:
  assumes "t \<le> of_int i"
  shows "round_half_even t \<le> i"
proof (cases "t - of_int \<lfloor>t\<rfloor> < 1 / 2")
  case True
  have "\<lfloor>t\<rfloor> \<le> i" using assms by linarith
  with True show ?thesis by (simp add: round_half_even_def Let_def)
next
  case False
  then have "of_int \<lfloor>t\<rfloor> < t" by linarith
  then have "of_int \<lfloor>t\<rfloor> < (of_int i :: real)" using assms by linarith
  then have "\<lfloor>t\<rfloor> + 1 \<le> i" by linarith
  moreover have "\<lfloor>t\<rfloor> \<le> i" using calculation by linarith
  ultimately show ?thesis by (simp add: round_half_even_def Let_def)
qed

lemma binade_bounds:
  assumes "0 < r"
  shows "pow2 (binade r) \<le> r" and "r < pow2 (binade r + 1)"
proof -
  have "\<lfloor>log 2 r\<rfloor> = binade r" using assms by (simp add: binade_def)
  then have "2 powr (of_int (binade r)) \<le> r \<and> r < 2 powr (of_int (binade r) + 1)"
    using assms floor_log_eq_powr_iff [of r 2 "binade r"] by simp
  then show "pow2 (binade r) \<le> r" and "r < pow2 (binade r + 1)"
    by (simp_all add: pow2_def)
qed

lemma multiple_of_pow2:
  assumes "k \<le> e"
  shows "of_int m * pow2 e = of_int (m * 2 ^ nat (e - k)) * pow2 k"
proof -
  have "pow2 e = pow2 ((e - k) + k)" by simp
  also have "\<dots> = pow2 (e - k) * pow2 k" by (rule pow2_add)
  also have "pow2 (e - k) = of_int (2 ^ nat (e - k))" using assms by (intro pow2_nat) simp
  finally show ?thesis by simp
qed

lemma below_binade:
  assumes "m < 2 ^ 53" and "e + 53 \<le> L"
  shows "of_int m * pow2 e < pow2 L"
proof -
  have "of_int m * pow2 e < 2 ^ 53 * pow2 e"
    using assms(1) by (intro mult_strict_right_mono) (simp_all, linarith?)
  also have "(2::real) ^ 53 = pow2 53" by (simp add: pow2_eval)
  also have "pow2 53 * pow2 e = pow2 (e + 53)" by (simp add: pow2_add)
  also have "\<dots> \<le> pow2 L" using assms(2) by (rule pow2_mono)
  finally show ?thesis .
qed

lemma to_double_between:
  assumes a: "a = of_int ma * pow2 ea" "0 \<le> ma" "ma < 2 ^ 53" "- 1074 \<le> ea"
    and b: "b = of_int mb * pow2 eb" "mb < 2 ^ 53" "- 1074 \<le> eb" "eb \<le> 971"
    and ar: "a \<le> r" and rb: "r \<le> b"
  shows "\<exists>v. to_double r = Num v \<and> a \<le> v \<and> v \<le> b"
proof (cases "r = 0")
  case True
  have "0 \<le> a" unfolding a(1) using a(2) by (rule scaled_nonneg)
  then show ?thesis using True ar rb by (simp add: to_double_def)
next
  case False
  have a0: "0 \<le> a" unfolding a(1) using a(2) by (rule scaled_nonneg)
  then have r0: "0 < r" using ar False by linarith
  define L where "L = binade r"
  define k where "k = max (- 1074) (L - 52)"
  define u where "u = pow2 k"
  define n where "n = round_half_even (r / u)"
  have u: "ulp r = u" by (simp add: ulp_def u_def k_def L_def)
  have upos: "0 < u" by (simp add: u_def)
  have lo: "pow2 L \<le> r" and hi: "r < pow2 (L + 1)"
    using binade_bounds [OF r0] by (simp_all add: L_def)
  have ge: "\<And>i. of_int i * u \<le> r \<Longrightarrow> of_int i * u \<le> of_int n * u"
  proof -
    fix i assume "of_int i * u \<le> r"
    then have "of_int i \<le> r / u" using upos by (simp add: pos_le_divide_eq)
    then have "i \<le> n" unfolding n_def by (rule round_half_even_ge)
    then show "of_int i * u \<le> of_int n * u" using upos by simp
  qed
  have le: "\<And>i. r \<le> of_int i * u \<Longrightarrow> of_int n * u \<le> of_int i * u"
  proof -
    fix i assume "r \<le> of_int i * u"
    then have "r / u \<le> of_int i" using upos by (simp add: pos_divide_le_eq)
    then have "n \<le> i" unfolding n_def by (rule round_half_even_le)
    then show "of_int n * u \<le> of_int i * u" using upos by simp
  qed
  have lower: "a \<le> of_int n * u"
  proof (cases "k \<le> ea")
    case True
    have "a = of_int (ma * 2 ^ nat (ea - k)) * u"
      unfolding a(1) u_def using True by (rule multiple_of_pow2)
    then show ?thesis using ge [of "ma * 2 ^ nat (ea - k)"] ar by simp
  next
    case False
    then have "k = L - 52" using a(4) by (simp add: k_def max_def split: if_splits)
    then have "ea + 53 \<le> L" using False by simp
    then have "a < pow2 L" unfolding a(1) using a(3) by (intro below_binade)
    moreover have "pow2 L = of_int (2 ^ nat (L - k)) * u"
      using multiple_of_pow2 [of k L 1] \<open>k = L - 52\<close> by (simp add: u_def)
    moreover have "of_int (2 ^ nat (L - k)) * u \<le> of_int n * u"
      using ge [of "2 ^ nat (L - k)"] lo calculation(2) by simp
    ultimately show ?thesis by linarith
  qed
  have upper: "of_int n * u \<le> b"
  proof (cases "k \<le> eb")
    case True
    have "b = of_int (mb * 2 ^ nat (eb - k)) * u"
      unfolding b(1) u_def using True by (rule multiple_of_pow2)
    then show ?thesis using le [of "mb * 2 ^ nat (eb - k)"] rb by simp
  next
    case False
    then have "k = L - 52" using b(3) by (simp add: k_def max_def split: if_splits)
    then have "eb + 53 \<le> L" using False by simp
    then have "b < pow2 L" unfolding b(1) using b(2) by (intro below_binade)
    then have False using lo rb by linarith
    then show ?thesis ..
  qed
  have "b < pow2 1024"
    unfolding b(1) using b(2,4) by (intro below_binade) simp_all
  then have "b < 2 ^ 1024" by (simp add: pow2_eval)
  moreover have "0 \<le> of_int n * u" using lower a0 by linarith
  ultimately have fin: "\<not> 2 ^ 1024 \<le> \<bar>of_int n * u\<bar>" using upper by simp
  have "to_double r = Num (of_int n * u)"
    using False fin by (simp add: to_double_def u n_def Let_def mult.commute)
  then show ?thesis using lower upper by blast
qed

subsection \<open>Rounding at given values\<close>

lemma to_double_exact:
  assumes "0 \<le> m" and "m < 2 ^ 53" and "- 1074 \<le> e" and "e \<le> 971"
    and "r = of_int m * pow2 e"
  shows "to_double r = Num r"
proof -
  from to_double_between [OF assms(5) assms(1-3) assms(5) assms(2-4), of r]
  obtain v where "to_double r = Num v" and "r \<le> v" and "v \<le> r" by auto
  then show ?thesis by simp
qed

lemma round_half_even_near:
  assumes "\<bar>t - of_int n\<bar> < 1 / 2"
  shows "round_half_even t = n"
proof (cases "of_int n \<le> t")
  case True
  then have "\<lfloor>t\<rfloor> = n" using assms by (intro floor_unique) linarith+
  then show ?thesis using assms True by (simp add: round_half_even_def Let_def)
next
  case False
  then have f: "\<lfloor>t\<rfloor> = n - 1" using assms by (intro floor_unique) (simp, linarith)+
  have "1 / 2 < t - of_int (n - 1)" using assms False by simp
  then show ?thesis using f by (simp add: round_half_even_def Let_def)
qed

lemma binade_eq:
  assumes "pow2 L \<le> r" and "r < pow2 (L + 1)"
  shows "binade r = L"
proof -
  have r0: "0 < r" using assms(1) pow2_pos [of L] by linarith
  have "2 powr (of_int L) \<le> r \<and> r < 2 powr (of_int L + 1)"
    using assms by (simp add: pow2_def)
  then have "\<lfloor>log 2 r\<rfloor> = L"
    using r0 floor_log_eq_powr_iff [of r 2 L] by simp
  then show ?thesis using r0 by (simp add: binade_def)
qed

lemma to_double_nearest:
  assumes "pow2 L \<le> r" and "r < pow2 (L + 1)"
    and "k = max (- 1074) (L - 52)"
    and "\<bar>r / pow2 k - of_int n\<bar> < 1 / 2"
    and "\<bar>pow2 k * of_int n\<bar> < 2 ^ 1024"
  shows "to_double r = Num (pow2 k * of_int n)"
proof -
  have r0: "0 < r" using assms(1) pow2_pos [of L] by linarith
  have u: "ulp r = pow2 k" using binade_eq [OF assms(1,2)] assms(3) by (simp add: ulp_def)
  have "round_half_even (r / pow2 k) = n" using assms(4) by (rule round_half_even_near)
  then show ?thesis using r0 u assms(5) by (simp add: to_double_def Let_def)
qed

lemma to_double_0 [simp]: "to_double 0 = Num 0"
  by (simp add: to_double_def)

lemma to_double_small_constants:
  "to_double 1 = Num 1" "to_double (1 / 2) = Num (1 / 2)" "to_double 64 = Num 64"
  "to_double 65 = Num 65" "to_double (65 / 128) = Num (65 / 128)"
  "to_double (11655 / 64) = Num (11655 / 64)" "to_double (259 / 512) = Num (259 / 512)"
  "to_double (259 / 4) = Num (259 / 4)"
proof -
  show "to_double 1 = Num 1"
    by (rule to_double_exact [where m = 1 and e = 0]) (simp_all add: pow2_eval)
  show "to_double (1 / 2) = Num (1 / 2)"
    by (rule to_double_exact [where m = 1 and e = "- 1"]) (simp_all add: pow2_eval)
  show "to_double 64 = Num 64"
    by (rule to_double_exact [where m = 64 and e = 0]) (simp_all add: pow2_eval)
  show "to_double 65 = Num 65"
    by (rule to_double_exact [where m = 65 and e = 0]) (simp_all add: pow2_eval)
  show "to_double (65 / 128) = Num (65 / 128)"
    by (rule to_double_exact [where m = 65 and e = "- 7"]) (simp_all add: pow2_eval)
  show "to_double (11655 / 64) = Num (11655 / 64)"
    by (rule to_double_exact [where m = 11655 and e = "- 6"]) (simp_all add: pow2_eval)
  show "to_double (259 / 512) = Num (259 / 512)"
    by (rule to_double_exact [where m = 259 and e = "- 9"]) (simp_all add: pow2_eval)
  show "to_double (259 / 4) = Num (259 / 4)"
    by (rule to_double_exact [where m = 259 and e = "- 2"]) (simp_all add: pow2_eval)
qed

lemma rounded_up_to_boundary:
  "to_double (45 / 16 - 1 / 2 ^ 51 + 180) = Num (2925 / 16)"
proof -
  let ?r = "45 / 16 - 1 / 2 ^ 51 + 180 :: real"
  have 1: "pow2 7 \<le> ?r" by (simp add: pow2_eval)
  have 2: "?r < pow2 (7 + 1)" by (simp add: pow2_eval)
  have 3: "(- 45 :: int) = max (- 1074) (7 - 52)" by simp
  have 4: "\<bar>?r / pow2 (- 45) - of_int (2925 * 2 ^ 41)\<bar> < 1 / 2" by (simp add: pow2_eval)
  have 5: "\<bar>pow2 (- 45) * of_int (2925 * 2 ^ 41)\<bar> < 2 ^ 1024" by (simp add: pow2_eval)
  have "to_double ?r = Num (pow2 (- 45) * of_int (2925 * 2 ^ 41))"
    using 1 2 3 4 5 by (rule to_double_nearest)
  then show ?thesis by (simp add: pow2_eval)
qed

section \<open>Properties of the tile coordinates\<close>

lemma Math_pow_2_7: "Math_pow M (Num 2) (Num 7) = Num 128"
  by (simp add: Math_pow_def)

lemma Math_PI_pos: "0 < Math_PI"
  by (simp add: Math_PI_def)

lemma sample_tile:
  "getTileCoords sample_Math (Num 0) (Num (135 / 64)) (Num 7) = (Num 64, Num 64)"
  using Math_PI_pos
  by (simp add: getTileCoords_def Let_def Math_pow_2_7 sample_Math_def double_sub_def
                to_double_small_constants)

lemma tile_column_bounds:
  fixes lon :: real
  assumes "- 180 \<le> lon" and "lon \<le> 180" and "k = slippy_x lon 7"
  shows "0 \<le> k" and "k \<le> 128"
    and "of_int (45 * k) * pow2 (- 4) \<le> lon + 180"
    and "lon + 180 \<le> of_int (45 * (k + 1)) * pow2 (- 4)"
proof -
  define t where "t = (lon + 180) / 360 * 2 ^ 7"
  have k: "k = \<lfloor>t\<rfloor>" using assms(3) by (simp add: t_def slippy_x_def)
  have s: "lon + 180 = t * (45 / 16)" by (simp add: t_def)
  have "0 \<le> t" using assms(1) by (simp add: t_def)
  then show "0 \<le> k" unfolding k by simp
  have "t \<le> 128" using assms(2) by (simp add: t_def)
  then show "k \<le> 128" unfolding k by (simp add: floor_le_iff)
  have lo: "of_int k \<le> t" and hi: "t < of_int k + 1" unfolding k by linarith+
  have "of_int k * (45 / 16) \<le> t * (45 / 16)"
    using lo by (intro mult_right_mono) simp_all
  then show "of_int (45 * k) * pow2 (- 4) \<le> lon + 180"
    unfolding s by (simp add: pow2_eval)
  have "t * (45 / 16) \<le> (of_int k + 1) * (45 / 16)"
    using hi by (intro mult_right_mono) simp_all
  then show "lon + 180 \<le> of_int (45 * (k + 1)) * pow2 (- 4)"
    unfolding s by (simp add: pow2_eval)
qed

lemma column_of_getTileCoords:
  fixes lon :: real and lat :: number
  assumes "- 180 \<le> lon" and "lon \<le> 180"
  shows "\<exists>v::real. fst (getTileCoords M lat (Num lon) (Num 7)) = Num (of_int \<lfloor>v\<rfloor>)
             \<and> of_int (slippy_x lon 7) \<le> v \<and> v \<le> of_int (slippy_x lon 7) + 1"
proof -
  define k where "k = slippy_x lon 7"
  note kb = tile_column_bounds [OF assms k_def]
  have m1: "0 \<le> 45 * k" "45 * k < 2 ^ 53" "45 * (k + 1) < 2 ^ 53" using kb(1,2) by simp_all
  from to_double_between [OF refl m1(1,2) _ refl m1(3) _ _ kb(3,4)]
  obtain v1 where v1: "to_double (lon + 180) = Num v1"
    and l1: "of_int (45 * k) * pow2 (- 4) \<le> v1" and u1: "v1 \<le> of_int (45 * (k + 1)) * pow2 (- 4)"
    by auto
  have m2: "0 \<le> k" "k < 2 ^ 53" "k + 1 < 2 ^ 53" using kb(1,2) by simp_all
  have l2: "of_int k * pow2 (- 7) \<le> v1 / 360" using l1 by (simp add: pow2_eval)
  have u2: "v1 / 360 \<le> of_int (k + 1) * pow2 (- 7)" using u1 by (simp add: pow2_eval)
  from to_double_between [OF refl m2(1,2) _ refl m2(3) _ _ l2 u2]
  obtain v2 where v2: "to_double (v1 / 360) = Num v2"
    and l2': "of_int k * pow2 (- 7) \<le> v2" and u2': "v2 \<le> of_int (k + 1) * pow2 (- 7)"
    by auto
  have l3: "of_int k * pow2 0 \<le> v2 * 128" using l2' by (simp add: pow2_eval)
  have u3: "v2 * 128 \<le> of_int (k + 1) * pow2 0" using u2' by (simp add: pow2_eval)
  from to_double_between [OF refl m2(1,2) _ refl m2(3) _ _ l3 u3]
  obtain v3 where v3: "to_double (v2 * 128) = Num v3"
    and l3': "of_int k * pow2 0 \<le> v3" and u3': "v3 \<le> of_int (k + 1) * pow2 0"
    by auto
  have "fst (getTileCoords M lat (Num lon) (Num 7)) = Num (of_int \<lfloor>v3\<rfloor>)"
    by (simp add: getTileCoords_def Let_def Math_pow_2_7 v1 v2 v3)
  moreover have "of_int k \<le> v3" using l3' by (simp add: pow2_eval)
  moreover have "v3 \<le> of_int k + 1" using u3' by (simp add: pow2_eval)
  ultimately show ?thesis unfolding k_def by blast
qed

lemma floor_number_cases:
  "floor_number n = NaN \<or> floor_number n = PosInfinity \<or> floor_number n = NegInfinity
   \<or> (\<exists>i. floor_number n = Num (of_int i))"
  by (cases n) simp_all




text \<open>
  Claim C10. The inline tile expressions of the second radar view, with the constant 128,
  give for every latitude and longitude, on every platform, the same pair as
  \<^verbatim>\<open>getTileCoords(lat, lon, 7)\<close> of the first, which multiplies by \<^verbatim>\<open>Math.pow(2, zoom)\<close>.
\<close>

theorem inlineTileCoords_eq_getTileCoords:
  fixes lat lon :: number
  shows "inlineTileCoords M lat lon = getTileCoords M lat lon (Num 7)"
  by (simp add: inlineTileCoords_def getTileCoords_def Let_def Math_pow_2_7)

text \<open>Witness for C10 at latitude 0 and longitude \<open>135/64\<close>: both give the tile \<open>(64, 64)\<close>.\<close>

theorem inlineTileCoords_eq_getTileCoords_witness:
  "inlineTileCoords sample_Math (Num 0) (Num (135 / 64))
     = getTileCoords sample_Math (Num 0) (Num (135 / 64)) (Num 7)
   \<and> inlineTileCoords sample_Math (Num 0) (Num (135 / 64)) = (Num 64, Num 64)"
  using inlineTileCoords_eq_getTileCoords [of sample_Math "Num 0" "Num (135 / 64)"] sample_tile
  by simp

section \<open>Properties of the playback\<close>

subsection \<open>Arithmetic of the index\<close>

lemma js_rem_int:
  assumes "0 \<le> k" and "0 < T"
  shows "js_rem (Num (of_int k)) (Num (real T)) = Num (of_int (k mod int T))"
proof -
  have q: "(0::real) \<le> of_int k / real T" using assms by simp
  have "\<lfloor>(of_int k :: real) / of_int (int T)\<rfloor> = k div int T"
    by (rule floor_divide_of_int_eq)
  then have "js_truncate (of_int k / real T) = k div int T"
    using q by (simp add: js_truncate_def)
  moreover have "(of_int k :: real) - real T * of_int (k div int T) = of_int (k mod int T)"
    by (simp add: minus_mult_div_eq_mod [symmetric] del: minus_mult_div_eq_mod)
  ultimately show ?thesis using assms by simp
qed

lemma js_rem_bounds:
  assumes "0 \<le> n" and "0 < d"
  shows "\<exists>r. js_rem (Num n) (Num d) = Num r \<and> 0 \<le> r \<and> r < d"
proof -
  let ?q = "\<lfloor>n / d\<rfloor>"
  have t: "js_truncate (n / d) = ?q" using assms by (simp add: js_truncate_def)
  have dn: "d * (n / d) = n" using assms(2) by simp
  have "d * of_int ?q \<le> d * (n / d)"
    using assms(2) by (intro mult_left_mono) simp_all
  then have lo: "d * of_int ?q \<le> n" using dn by simp
  have "n / d < of_int ?q + 1" by linarith
  then have "d * (n / d) < d * (of_int ?q + 1)"
    using assms(2) by (intro mult_strict_left_mono)
  then have hi: "n < d * (of_int ?q + 1)" using dn by simp
  have "js_rem (Num n) (Num d) = Num (n - d * of_int ?q)" using assms(2) t by simp
  moreover have "0 \<le> n - d * of_int ?q" using lo by simp
  moreover have "n - d * of_int ?q < d" using hi by (simp add: algebra_simps)
  ultimately show ?thesis by blast
qed

lemma floor_tenth: "Math_floor (of_int m / 10) = of_int (m div 10)"
proof -
  have "\<lfloor>(of_int m :: real) / of_int 10\<rfloor> = m div 10"
    by (rule floor_divide_of_int_eq)
  then show ?thesis by (simp add: Math_floor_def)
qed

lemma clamp_max_min:
  assumes "lo \<le> hi"
  shows "max (of_int lo :: real) (min (of_int hi) (of_int v)) = of_int (clamp lo hi v)"
  using assms by (simp add: clamp_def max_def min_def)

lemma clamp_range:
  assumes "lo \<le> hi"
  shows "lo \<le> clamp lo hi v \<and> clamp lo hi v \<le> hi"
  using assms by (simp add: clamp_def)

lemma real_ge_one:
  fixes n :: nat
  assumes "0 < n"
  shows "1 \<le> real n"
  using assms by simp

lemma clamped_in_range:
  fixes n :: nat
  assumes "0 < n"
  shows "0 \<le> max 0 (min (real n - 1) t) \<and> max 0 (min (real n - 1) t) < real n"
proof -
  have "1 \<le> real n" using assms by simp
  then show ?thesis by (simp add: max_def min_def)
qed

lemma reset_in_range:
  fixes p n :: nat
  assumes "0 < p + n"
  shows "0 \<le> max 0 (real p - 1) \<and> max 0 (real p - 1) < real (p + n)"
proof (cases p)
  case 0
  then show ?thesis using assms by simp
next
  case (Suc k)
  then show ?thesis by (simp add: max_def)
qed

subsection \<open>The operations, unfolded\<close>

lemma allFrames_update [simp]:
  "allFrames (s\<lparr>currentFrame := v\<rparr>) = allFrames s"
  "allFrames (s\<lparr>isPlaying := b\<rparr>) = allFrames s"
  by (simp_all add: allFrames_def)

lemma length_allFrames:
  assumes "radarData s = Some d"
  shows "length (allFrames s) = length (past d) + length (nowcast d)"
  using assms by (simp add: allFrames_def)

lemma jumpToTime_index:
  assumes "radarData s = Some d"
  shows "jumpToTime s mins
         = s\<lparr>currentFrame :=
               Num (max 0 (min (real (length (past d) + length (nowcast d)) - 1)
                               (real (length (past d)) - 1 + Math_floor (mins / 10)))),
             isPlaying := False\<rparr>"
  using assms by (simp add: jumpToTime_def allFrames_def Let_def)

lemma tick_index:
  assumes "isPlaying s" and "radarData s = Some d"
  shows "tick s = s\<lparr>currentFrame :=
                       js_rem (js_plus (currentFrame s) (Num 1))
                              (Num (real (length (past d) + length (nowcast d))))\<rparr>"
  using assms by (simp add: tick_def)

lemma tick_idle:
  assumes "\<not> isPlaying s \<or> radarData s = None"
  shows "tick s = s"
  using assms by (auto simp add: tick_def)

lemma togglePlay_flips:
  assumes "\<not> loading s" and "allFrames s \<noteq> []"
  shows "togglePlay s = s\<lparr>isPlaying := \<not> isPlaying s\<rparr>"
  using assms by (simp add: togglePlay_def operate_def playbackControls_def)

lemma sample_view_data:
  "init RadarView_initial (Manifest sample_manifest)
   = \<lparr>radarData = Some sample_manifest, currentFrame = Num 1, isPlaying = False,
      loading = False, radarError = None\<rparr>"
  by (simp add: init_def loadRadarData_def RadarView_initial_def sample_manifest_def Let_def)

subsection \<open>Quick jump\<close>

text \<open>
  Claim C2. With a manifest loaded that has \<open>P\<close> past frames and \<open>T \<ge> 1\<close> frames in all,
  \<^verbatim>\<open>jumpToTime(m)\<close> for an integer \<open>m\<close> sets the index to \<open>P - 1 + floor(m / 10)\<close> clamped
  into \<open>[0, T - 1]\<close> and sets \<^verbatim>\<open>isPlaying\<close> to false; every other field of the view keeps
  its value.
\<close>

theorem jumpToTime_clamps:
  assumes "radarData s = Some d"
    and "P = int (length (past d))"
    and "T = int (length (past d) + length (nowcast d))"
    and "1 \<le> T"
  shows "jumpToTime s (of_int m)
           = s\<lparr>currentFrame := Num (of_int (clamp 0 (T - 1) (P - 1 + m div 10))),
                isPlaying := False\<rparr>
         \<and> 0 \<le> clamp 0 (T - 1) (P - 1 + m div 10)
         \<and> clamp 0 (T - 1) (P - 1 + m div 10) \<le> T - 1"
proof -
  have le: "(0::int) \<le> T - 1" using assms(4) by simp
  have "max 0 (min (real (length (past d) + length (nowcast d)) - 1)
                   (real (length (past d)) - 1 + Math_floor (of_int m / 10)))
        = max (of_int 0) (min (of_int (T - 1)) (of_int (P - 1 + m div 10)))"
    using assms(2,3) by (simp add: floor_tenth)
  also have "\<dots> = of_int (clamp 0 (T - 1) (P - 1 + m div 10))"
    using le by (rule clamp_max_min)
  finally show ?thesis
    using jumpToTime_index [OF assms(1), of "of_int m"] clamp_range [OF le] by simp
qed

text \<open>
  Witness for C2: with two past frames and one forecast frame, playing at index 1, a jump
  by 60 minutes asks for frame 7 and lands on the last frame, 2, with playback stopped.
\<close>

theorem jumpToTime_clamps_witness:
  "jumpToTime \<lparr>radarData = Some sample_manifest, currentFrame = Num 1, isPlaying = True,
               loading = False, radarError = None\<rparr> 60
   = \<lparr>radarData = Some sample_manifest, currentFrame = Num 2, isPlaying = False,
      loading = False, radarError = None\<rparr>"
proof -
  let ?s = "\<lparr>radarData = Some sample_manifest, currentFrame = Num 1, isPlaying = True,
             loading = False, radarError = None\<rparr>"
  have d: "radarData ?s = Some sample_manifest" by simp
  have P: "(2::int) = int (length (past sample_manifest))"
    by (simp add: sample_manifest_def)
  have T: "(3::int) = int (length (past sample_manifest) + length (nowcast sample_manifest))"
    by (simp add: sample_manifest_def)
  have one: "(1::int) \<le> 3" by simp
  show ?thesis
    using jumpToTime_clamps [OF d P T one, of 60] by (simp add: clamp_def)
qed

subsection \<open>The timer\<close>




subsection \<open>Play and pause\<close>

text \<open>
  Claim C9. When the loaded manifest has no frames, past and forecast both empty,
  \<open>togglePlay\<close> changes nothing; in particular \<^verbatim>\<open>isPlaying\<close> is as before. The handler
  \<^verbatim>\<open>setIsPlaying(!isPlaying)\<close> has no test of its own: the button that carries it is not
  rendered for an empty frame list.
\<close>

theorem togglePlay_zero_frames:
  assumes "radarData s = Some d" and "past d = []" and "nowcast d = []"
  shows "togglePlay s = s"
  using assms by (simp add: togglePlay_def operate_def playbackControls_def allFrames_def)

text \<open>Witness for C9: the view after loading the empty manifest.\<close>

theorem togglePlay_zero_frames_witness:
  "togglePlay (init RadarView_initial (Manifest empty_manifest))
   = init RadarView_initial (Manifest empty_manifest)
   \<and> isPlaying (togglePlay (init RadarView_initial (Manifest empty_manifest))) = False"
proof -
  let ?s = "init RadarView_initial (Manifest empty_manifest)"
  have d: "radarData ?s = Some empty_manifest"
    by (simp add: init_def loadRadarData_def Let_def)
  have p: "past empty_manifest = []" and n: "nowcast empty_manifest = []"
    by (simp_all add: empty_manifest_def)
  have "isPlaying ?s = False"
    by (simp add: init_def loadRadarData_def RadarView_initial_def Let_def)
  then show ?thesis
    using togglePlay_zero_frames [OF d p n] by simp
qed

subsection \<open>The index stays within the frames\<close>

lemma in_boundsI:
  assumes "currentFrame s = Num i" and "0 \<le> i" and "i < real (length (allFrames s))"
  shows "in_bounds s"
  using assms by (simp add: in_bounds_def)

lemma in_boundsE:
  assumes "in_bounds s"
  obtains i where "currentFrame s = Num i" and "0 \<le> i" and "i < real (length (allFrames s))"
  using assms by (auto simp add: in_bounds_def split: number.splits)

lemma in_bounds_load:
  assumes "0 < length (past d) + length (nowcast d)"
  shows "in_bounds (loadRadarData s (Manifest d))"
proof -
  let ?s' = "loadRadarData s (Manifest d)"
  have c: "currentFrame ?s' = Num (max 0 (real (length (past d)) - 1))"
    by (simp add: loadRadarData_def Let_def)
  have l: "length (allFrames ?s') = length (past d) + length (nowcast d)"
    by (simp add: loadRadarData_def Let_def allFrames_def)
  have "0 \<le> max 0 (real (length (past d)) - 1)
        \<and> max 0 (real (length (past d)) - 1) < real (length (past d) + length (nowcast d))"
    using assms by (rule reset_in_range)
  then show ?thesis using c l
    by (intro in_boundsI [where i = "max 0 (real (length (past d)) - 1)"]) simp_all
qed

lemma in_bounds_tick:
  assumes "in_bounds s"
  shows "in_bounds (tick s)"
proof (cases "isPlaying s")
  case False
  then show ?thesis using assms by (simp add: tick_def)
next
  case True
  show ?thesis
  proof (cases "radarData s")
    case None
    then show ?thesis using assms by (simp add: tick_def)
  next
    case (Some d)
    from assms obtain i where i: "currentFrame s = Num i" "0 \<le> i"
      and lt: "i < real (length (allFrames s))"
      by (rule in_boundsE)
    let ?T = "real (length (past d) + length (nowcast d))"
    have T: "0 < ?T" using lt i(2) length_allFrames [OF Some] by linarith
    have "0 \<le> i + 1" using i(2) by simp
    from js_rem_bounds [OF this T] obtain r
      where r: "js_rem (Num (i + 1)) (Num ?T) = Num r" "0 \<le> r" "r < ?T" by blast
    have t: "tick s = s\<lparr>currentFrame := Num r\<rparr>"
      using tick_index [OF True Some] i(1) r(1) by simp
    have "r < real (length (allFrames (tick s)))"
      using r(3) length_allFrames [OF Some] t by simp
    moreover have "currentFrame (tick s) = Num r" using t by simp
    ultimately show ?thesis using r(2) by (intro in_boundsI [where i = r])
  qed
qed

lemma in_bounds_jumpToTime:
  assumes "allFrames s \<noteq> []"
  shows "in_bounds (jumpToTime s mins)"
proof (cases "radarData s")
  case None
  then show ?thesis using assms by (simp add: allFrames_def)
next
  case (Some d)
  let ?n = "length (past d) + length (nowcast d)"
  let ?t = "real (length (past d)) - 1 + Math_floor (mins / 10)"
  have "0 < length (allFrames s)" using assms by simp
  then have n: "0 < ?n" using length_allFrames [OF Some] by (simp only:)
  have j: "jumpToTime s mins
           = s\<lparr>currentFrame := Num (max 0 (min (real ?n - 1) ?t)), isPlaying := False\<rparr>"
    by (rule jumpToTime_index [OF Some])
  have "length (allFrames (jumpToTime s mins)) = ?n"
    using j length_allFrames [OF Some] by simp
  moreover have "currentFrame (jumpToTime s mins) = Num (max 0 (min (real ?n - 1) ?t))"
    using j by simp
  ultimately show ?thesis
    using clamped_in_range [OF n, of ?t]
    by (intro in_boundsI [where i = "max 0 (min (real ?n - 1) ?t)"]) simp_all
qed

lemma in_bounds_operate:
  assumes "in_bounds s"
  shows "in_bounds (operate s c)"
proof (cases "playbackControls s c")
  case None
  then show ?thesis using assms by (simp add: operate_def)
next
  case (Some s')
  then have n: "0 < length (allFrames s)" and nl: "\<not> loading s"
    by (auto simp add: playbackControls_def split: if_splits)
  from assms obtain i where i: "currentFrame s = Num i" "0 \<le> i" "i < real (length (allFrames s))"
    by (rule in_boundsE)
  have one: "1 \<le> real (length (allFrames s))" using n by (rule real_ge_one)
  show ?thesis
  proof (cases c)
    case SkipBack
    then have "operate s c = s\<lparr>currentFrame := Num 0\<rparr>"
      using n nl by (simp add: operate_def playbackControls_def)
    then show ?thesis using n by (intro in_boundsI [where i = 0]) simp_all
  next
    case PlayPause
    then have "operate s c = s\<lparr>isPlaying := \<not> isPlaying s\<rparr>"
      using n nl by (simp add: operate_def playbackControls_def)
    then show ?thesis using i by (intro in_boundsI [where i = i]) simp_all
  next
    case SkipForward
    then have "operate s c = s\<lparr>currentFrame := Num (real (length (allFrames s)) - 1)\<rparr>"
      using n nl by (simp add: operate_def playbackControls_def)
    then show ?thesis using one
      by (intro in_boundsI [where i = "real (length (allFrames s)) - 1"]) simp_all
  next
    case (SliderChange v)
    then have "operate s c
               = s\<lparr>currentFrame := Num (max 0 (min (real (length (allFrames s)) - 1) v))\<rparr>"
      using n nl by (simp add: operate_def playbackControls_def Slider_value_def)
    then show ?thesis using clamped_in_range [OF n, of v]
      by (intro in_boundsI [where i = "max 0 (min (real (length (allFrames s)) - 1) v)"]) simp_all
  qed
qed

text \<open>
  Claim C6. With a manifest of at least one frame, the index is within
  \<open>0 \<le> index < totalFrames\<close> after the manifest is loaded, and a view whose index is within
  these bounds keeps it there under a tick, a scrub, a quick jump and each of the playback
  controls.
\<close>

theorem index_in_bounds:
  assumes "radarData s = Some d"
    and "1 \<le> length (past d) + length (nowcast d)"
    and "in_bounds s"
  shows "in_bounds (loadRadarData s0 (Manifest d))
         \<and> in_bounds (tick s)
         \<and> in_bounds (scrub s v)
         \<and> in_bounds (jumpToTime s mins)
         \<and> in_bounds (operate s c)"
proof -
  have pos: "0 < length (past d) + length (nowcast d)" using assms(2) by linarith
  then have "0 < length (allFrames s)" using length_allFrames [OF assms(1)] by (simp only:)
  then have ne: "allFrames s \<noteq> []" by simp
  have "in_bounds (loadRadarData s0 (Manifest d))" using pos by (rule in_bounds_load)
  moreover have "in_bounds (tick s)" using assms(3) by (rule in_bounds_tick)
  moreover have "in_bounds (scrub s v)"
    unfolding scrub_def using assms(3) by (rule in_bounds_operate)
  moreover have "in_bounds (jumpToTime s mins)" using ne by (rule in_bounds_jumpToTime)
  moreover have "in_bounds (operate s c)" using assms(3) by (rule in_bounds_operate)
  ultimately show ?thesis by simp
qed

text \<open>
  Witness for C6: the view after loading the three-frame manifest, with play switched on;
  the slider dragged beyond the end and a jump back by 30 minutes both stay inside.
\<close>

theorem index_in_bounds_witness:
  "in_bounds (togglePlay (init RadarView_initial (Manifest sample_manifest)))
   \<and> in_bounds (loadRadarData RadarView_initial (Manifest sample_manifest))
   \<and> currentFrame (tick (togglePlay (init RadarView_initial (Manifest sample_manifest)))) = Num 2
   \<and> currentFrame (scrub (togglePlay (init RadarView_initial (Manifest sample_manifest))) 9) = Num 2
   \<and> currentFrame (jumpToTime (togglePlay (init RadarView_initial (Manifest sample_manifest))) (- 30))
       = Num 0
   \<and> in_bounds (operate (togglePlay (init RadarView_initial (Manifest sample_manifest))) SkipForward)"
proof -
  let ?s = "togglePlay (init RadarView_initial (Manifest sample_manifest))"
  have s: "?s = \<lparr>radarData = Some sample_manifest, currentFrame = Num 1, isPlaying = True,
                  loading = False, radarError = None\<rparr>"
    unfolding sample_view_data
    by (simp add: togglePlay_def operate_def playbackControls_def allFrames_def
                  sample_manifest_def)
  have d: "radarData ?s = Some sample_manifest" unfolding s by simp
  have n: "1 \<le> length (past sample_manifest) + length (nowcast sample_manifest)"
    by (simp add: sample_manifest_def)
  have b: "in_bounds ?s"
    unfolding s by (simp add: in_bounds_def allFrames_def sample_manifest_def)
  have t: "currentFrame (tick ?s) = Num 2"
    unfolding s by (simp add: tick_def sample_manifest_def js_truncate_def)
  have sc: "currentFrame (scrub ?s 9) = Num 2"
    unfolding s
    by (simp add: scrub_def operate_def playbackControls_def allFrames_def sample_manifest_def
                  Slider_value_def)
  have j: "currentFrame (jumpToTime ?s (- 30)) = Num 0"
    unfolding s
    by (simp add: jumpToTime_def allFrames_def sample_manifest_def Math_floor_def Let_def)
  show ?thesis
    using index_in_bounds [OF d n b, of RadarView_initial 9 "- 30" SkipForward] b t sc j
    by simp
qed

section \<open>Properties of the location store\<close>

subsection \<open>Acquiring the position\<close>

lemma messages_distinct:
  "distinct [MSG_UNSUPPORTED, MSG_PERMISSION_DENIED, MSG_POSITION_UNAVAILABLE, MSG_TIMEOUT,
             MSG_UNKNOWN]"
  by (simp add: MSG_UNSUPPORTED_def MSG_PERMISSION_DENIED_def MSG_POSITION_UNAVAILABLE_def
                MSG_TIMEOUT_def MSG_UNKNOWN_def)

lemma updateFromGPS_unsupported:
  "updateFromGPS s Unsupported r now = (s\<lparr>error := Some MSG_UNSUPPORTED\<rparr>, Resolved)"
  by (simp add: updateFromGPS_def)

lemma clearError_location: "location (clearError s) = location s"
  by (simp add: clearError_def)

text \<open>
  Claim C3. Whatever failure the platform reports for the geolocation call, with \<open>s'\<close> the
  state and \<open>p\<close> the settlement that \<^verbatim>\<open>updateFromGPS\<close> ends with: the location is the one
  before the call, the promise is resolved, and the error is the message for the code
  reported (permission denied, position unavailable, timeout, and the unknown-error
  message for every other code).
\<close>

theorem updateFromGPS_failure:
  assumes "updateFromGPS s (PositionError code) r now = (s', p)"
  shows "location s' = location s
         \<and> p = Resolved
         \<and> (code = PERMISSION_DENIED \<longrightarrow> error s' = Some MSG_PERMISSION_DENIED)
         \<and> (code = POSITION_UNAVAILABLE \<longrightarrow> error s' = Some MSG_POSITION_UNAVAILABLE)
         \<and> (code = TIMEOUT \<longrightarrow> error s' = Some MSG_TIMEOUT)
         \<and> (code \<notin> {PERMISSION_DENIED, POSITION_UNAVAILABLE, TIMEOUT}
              \<longrightarrow> error s' = Some MSG_UNKNOWN)"
  using assms
  by (auto simp add: updateFromGPS_def Let_def PERMISSION_DENIED_def POSITION_UNAVAILABLE_def
                     TIMEOUT_def split: if_splits)

text \<open>
  Witness for C3: a store that holds a manual location, and a device that reports
  permission denied (code 1).
\<close>

theorem updateFromGPS_failure_witness:
  "updateFromGPS \<lparr>location = \<lparr>lat = Some (Num 52), lon = Some (Num 13), cityLabel = ''Berlin'',
                                source = manual, lastUpdated = Num 1\<rparr>,
                   isLoading = False, error = None\<rparr>
                 (PositionError 1) GeocodingFailed 2
   = (\<lparr>location = \<lparr>lat = Some (Num 52), lon = Some (Num 13), cityLabel = ''Berlin'',
                     source = manual, lastUpdated = Num 1\<rparr>,
        isLoading = False, error = Some MSG_PERMISSION_DENIED\<rparr>, Resolved)
   \<and> location \<lparr>location = \<lparr>lat = Some (Num 52), lon = Some (Num 13), cityLabel = ''Berlin'',
                             source = manual, lastUpdated = Num 1\<rparr>,
                isLoading = False, error = Some MSG_PERMISSION_DENIED\<rparr>
       = \<lparr>lat = Some (Num 52), lon = Some (Num 13), cityLabel = ''Berlin'',
          source = manual, lastUpdated = Num 1\<rparr>"
proof -
  have run: "updateFromGPS \<lparr>location = \<lparr>lat = Some (Num 52), lon = Some (Num 13),
                                          cityLabel = ''Berlin'', source = manual,
                                          lastUpdated = Num 1\<rparr>,
                             isLoading = False, error = None\<rparr>
                           (PositionError 1) GeocodingFailed 2
             = (\<lparr>location = \<lparr>lat = Some (Num 52), lon = Some (Num 13), cityLabel = ''Berlin'',
                               source = manual, lastUpdated = Num 1\<rparr>,
                  isLoading = False, error = Some MSG_PERMISSION_DENIED\<rparr>, Resolved)"
    by (simp add: updateFromGPS_def Let_def PERMISSION_DENIED_def)
  show ?thesis using run updateFromGPS_failure [OF run] by simp
qed

text \<open>
  Claim C8. When the geolocation call succeeds with a latitude and a longitude and the
  reverse-geocoding request fails, \<^verbatim>\<open>updateFromGPS\<close> replaces the whole location by these
  coordinates with the label "Aktueller Standort", source gps and the current time, leaves
  no error whatever the error was before, and resolves.
\<close>

theorem updateFromGPS_geocoding_failure:
  "updateFromGPS s (Position latitude longitude) GeocodingFailed now
   = (\<lparr>location = \<lparr>lat = Some (Num latitude), lon = Some (Num longitude),
                    cityLabel = ''Aktueller Standort'', source = gps, lastUpdated = Num now\<rparr>,
       isLoading = False, error = None\<rparr>, Resolved)"
  by (simp add: updateFromGPS_def Let_def)

text \<open>Witness for C8: a store that still shows a timeout from an earlier attempt.\<close>

theorem updateFromGPS_geocoding_failure_witness:
  "updateFromGPS \<lparr>location = DEFAULT_LOCATION, isLoading = False, error = Some MSG_TIMEOUT\<rparr>
                 (Position 52.5 13.4) GeocodingFailed 1700000000000
   = (\<lparr>location = \<lparr>lat = Some (Num 52.5), lon = Some (Num 13.4),
                     cityLabel = ''Aktueller Standort'', source = gps,
                     lastUpdated = Num 1700000000000\<rparr>,
        isLoading = False, error = None\<rparr>, Resolved)"
  using updateFromGPS_geocoding_failure
          [of "\<lparr>location = DEFAULT_LOCATION, isLoading = False, error = Some MSG_TIMEOUT\<rparr>"
              "52.5" "13.4" 1700000000000]
  by simp

subsection \<open>Writing the location and reading it back\<close>

lemma property_stringify [simp]:
  "property (stringify_location l) ''lat'' = Some (json_of_coordinate (lat l))"
  "property (stringify_location l) ''lon'' = Some (json_of_coordinate (lon l))"
  "property (stringify_location l) ''cityLabel'' = Some (JString (cityLabel l))"
  "property (stringify_location l) ''source'' = Some (json_of_source (source l))"
  "property (stringify_location l) ''lastUpdated'' = Some (json_of_number (lastUpdated l))"
  by (simp_all add: property_def stringify_location_def)

lemma source_roundtrip [simp]: "source_of_json (Some (json_of_source src)) = Some src"
  by (cases src) (simp_all add: source_of_json_def string_of_json_def json_of_source_def)

lemma parse_stringify_finite:
  assumes "lat l = Some (Num a)" and "lon l = Some (Num b)" and "lastUpdated l = Num t"
  shows "LocationState_of_json (stringify_location l) = Some l"
  using assms
  by (simp add: LocationState_of_json_def coordinate_of_json_def json_of_coordinate_def
                json_of_number_def string_of_json_def number_of_json_def)

lemma primary_key_written:
  assumes "lat l \<noteq> None" and "lon l \<noteq> None" and "w \<noteq> FirstWriteFails"
  shows "persist w l st LOCATION_STORAGE_KEY = Some (Document (stringify_location l))"
  using assms
  by (cases w) (simp_all add: persist_def LOCATION_STORAGE_KEY_def LEGACY_STORAGE_KEY_def)

lemma nothing_written_for_null:
  assumes "lat l = None \<or> lon l = None"
  shows "persist w l st = st"
  using assms by (auto simp add: persist_def)

lemma rehydrate_persisted:
  assumes "lat l = Some (Num a)" and "lon l = Some (Num b)" and "lastUpdated l = Num t"
    and "w \<noteq> FirstWriteFails"
  shows "rehydrate (persist w l st) s = Installed (s\<lparr>location := l\<rparr>)"
proof -
  have "persist w l st LOCATION_STORAGE_KEY = Some (Document (stringify_location l))"
    using assms(1,2,4) by (intro primary_key_written) simp_all
  then show ?thesis
    using parse_stringify_finite [OF assms(1-3)] by (simp add: rehydrate_def)
qed

lemma rehydrate_copies:
  assumes "st LOCATION_STORAGE_KEY = Some (Document j)" and "LocationState_of_json j = Some l"
  shows "rehydrate st s = Installed (s\<lparr>location := l\<rparr>)"
  using assms by (simp add: rehydrate_def)

lemma rehydrate_nothing_stored:
  assumes "st LOCATION_STORAGE_KEY = None \<or> st LOCATION_STORAGE_KEY = Some NotJSON"
  shows "rehydrate st s = Installed s"
  using assms by (auto simp add: rehydrate_def)

text \<open>
  Claim C4, as amended. For finite \<open>lat\<close> and \<open>lon\<close> and every label \<open>X\<close>: after
  \<^verbatim>\<open>updateManual(lat, lon, X)\<close>, with the location written under the primary key, a fresh
  store that rehydrates from storage holds the same \<open>lat\<close>, the same \<open>lon\<close>, the label
  \<open>X\<close>, source manual and the same time stamp.
\<close>

theorem updateManual_roundtrip:
  assumes "w \<noteq> FirstWriteFails"
  shows "rehydrate (persist w (location (updateManual s (Num a) (Num b) label now)) st)
                   LocationProvider_initial
         = Installed (LocationProvider_initial
                        \<lparr>location := \<lparr>lat = Some (Num a), lon = Some (Num b), cityLabel = label,
                                       source = manual, lastUpdated = Num now\<rparr>\<rparr>)"
proof -
  have l: "location (updateManual s (Num a) (Num b) label now)
           = \<lparr>lat = Some (Num a), lon = Some (Num b), cityLabel = label,
              source = manual, lastUpdated = Num now\<rparr>"
    by (simp add: updateManual_def)
  show ?thesis
    unfolding l using assms by (intro rehydrate_persisted) simp_all
qed

text \<open>Witness for C4 as amended: Munich, entered by hand, with empty storage before.\<close>

theorem updateManual_roundtrip_witness:
  "rehydrate (persist WriteOk (location (updateManual LocationProvider_initial
                                           (Num 48.1) (Num 11.6) ''X'' 1700000000000))
                      Map.empty)
             LocationProvider_initial
   = Installed \<lparr>location = \<lparr>lat = Some (Num 48.1), lon = Some (Num 11.6), cityLabel = ''X'',
                              source = manual, lastUpdated = Num 1700000000000\<rparr>,
                 isLoading = False, error = None\<rparr>"
  using updateManual_roundtrip [of WriteOk LocationProvider_initial "48.1" "11.6" "''X''"
                                   1700000000000 Map.empty]
  by (simp add: LocationProvider_initial_def)

text \<open>
  Counterexample to C4 as stated: \<^verbatim>\<open>updateManual(NaN, 11.6, "X")\<close>. The latitude is not
  null, so the location is written; \<^verbatim>\<open>JSON.stringify\<close> writes \<^verbatim>\<open>NaN\<close> as \<^verbatim>\<open>null\<close>, and the
  fresh store holds latitude \<^verbatim>\<open>null\<close>, not \<^verbatim>\<open>NaN\<close>.
\<close>

theorem updateManual_roundtrip_counterexample:
  "rehydrate (persist WriteOk (location (updateManual LocationProvider_initial
                                           NaN (Num 11.6) ''X'' 1700000000000))
                      Map.empty)
             LocationProvider_initial
   = Installed \<lparr>location = \<lparr>lat = None, lon = Some (Num 11.6), cityLabel = ''X'',
                              source = manual, lastUpdated = Num 1700000000000\<rparr>,
                 isLoading = False, error = None\<rparr>
   \<and> lat \<lparr>lat = None, lon = Some (Num 11.6), cityLabel = ''X'',
           source = manual, lastUpdated = Num 1700000000000\<rparr> \<noteq> Some NaN"
  by (simp add: rehydrate_def persist_def updateManual_def LocationProvider_initial_def
                LOCATION_STORAGE_KEY_def LEGACY_STORAGE_KEY_def LocationState_of_json_def
                stringify_location_def property_def coordinate_of_json_def json_of_coordinate_def
                json_of_number_def string_of_json_def number_of_json_def source_of_json_def
                json_of_source_def)

subsection \<open>The coordinates come in pairs\<close>

lemma paired_after_gps:
  assumes "coordinates_paired (location s)"
  shows "coordinates_paired (location (fst (updateFromGPS s g r now)))"
  using assms
  by (cases g; cases r) (simp_all add: updateFromGPS_def Let_def coordinates_paired_def)

text \<open>
  Claim C7, as amended. The default location has both coordinates null; \<^verbatim>\<open>updateManual\<close>
  sets both; the GPS flow sets both when it succeeds and leaves the location alone when it
  fails, so it keeps the invariant. Rehydration copies the stored record as it is: from a
  record that was written for a location with finite coordinates and time stamp it
  restores that location, which has both coordinates.
\<close>

theorem coordinates_paired_kept:
  assumes "coordinates_paired (location s)"
    and "lat l = Some (Num a)" and "lon l = Some (Num b)" and "lastUpdated l = Num t"
    and "w \<noteq> FirstWriteFails"
  shows "coordinates_paired DEFAULT_LOCATION
         \<and> coordinates_paired (location (fst (updateFromGPS s g r now)))
         \<and> coordinates_paired (location (updateManual s la lo label now))
         \<and> rehydrate (persist w l st) s0 = Installed (s0\<lparr>location := l\<rparr>)
         \<and> coordinates_paired l"
proof -
  have "coordinates_paired DEFAULT_LOCATION"
    by (simp add: coordinates_paired_def DEFAULT_LOCATION_def)
  moreover have "coordinates_paired (location (fst (updateFromGPS s g r now)))"
    using assms(1) by (rule paired_after_gps)
  moreover have "coordinates_paired (location (updateManual s la lo label now))"
    by (simp add: coordinates_paired_def updateManual_def)
  moreover have "rehydrate (persist w l st) s0 = Installed (s0\<lparr>location := l\<rparr>)"
    using assms(2-5) by (rule rehydrate_persisted)
  moreover have "coordinates_paired l"
    using assms(2,3) by (simp add: coordinates_paired_def)
  ultimately show ?thesis by simp
qed

text \<open>
  Witness for C7 as amended: the fresh store, a GPS fix in Berlin, a manual entry, and a
  stored manual location read back.
\<close>

theorem coordinates_paired_kept_witness:
  "coordinates_paired (location LocationProvider_initial)
   \<and> coordinates_paired (location (fst (updateFromGPS LocationProvider_initial
                                           (Position 52.5 13.4) (GeocodingName (Some ''Berlin'')) 5)))
   \<and> coordinates_paired (location (updateManual LocationProvider_initial (Num 50) (Num 8) ''Mainz'' 5))
   \<and> rehydrate (persist WriteOk \<lparr>lat = Some (Num 50), lon = Some (Num 8), cityLabel = ''Mainz'',
                                  source = manual, lastUpdated = Num 6\<rparr> Map.empty)
                LocationProvider_initial
       = Installed \<lparr>location = \<lparr>lat = Some (Num 50), lon = Some (Num 8), cityLabel = ''Mainz'',
                                  source = manual, lastUpdated = Num 6\<rparr>,
                     isLoading = False, error = None\<rparr>"
proof -
  have p: "coordinates_paired (location LocationProvider_initial)"
    by (simp add: coordinates_paired_def LocationProvider_initial_def DEFAULT_LOCATION_def)
  have w: "WriteOk \<noteq> FirstWriteFails" by simp
  show ?thesis
    using p coordinates_paired_kept
            [OF p _ _ _ w,
             where l = "\<lparr>lat = Some (Num 50), lon = Some (Num 8), cityLabel = ''Mainz'',
                         source = manual, lastUpdated = Num 6\<rparr>"
               and a = 50 and b = 8 and t = 6
               and g = "Position 52.5 13.4" and r = "GeocodingName (Some ''Berlin'')" and now = 5
               and la = "Num 50" and lo = "Num 8" and label = "''Mainz''"
               and st = Map.empty and ?s0.0 = LocationProvider_initial]
    by (simp add: LocationProvider_initial_def)
qed

text \<open>
  Counterexample to C7 as stated: \<^verbatim>\<open>updateManual(50, Infinity, "Y")\<close> gives a location with
  both coordinates non-null, so it is written; the infinite longitude is written as
  \<^verbatim>\<open>null\<close>, and the store that rehydrates from this record holds a latitude and no
  longitude.
\<close>

theorem rehydrate_unpaired_counterexample:
  "coordinates_paired (location (updateManual LocationProvider_initial (Num 50) PosInfinity ''Y'' 7))
   \<and> rehydrate (persist WriteOk (location (updateManual LocationProvider_initial
                                             (Num 50) PosInfinity ''Y'' 7))
                        Map.empty)
                LocationProvider_initial
       = Installed \<lparr>location = \<lparr>lat = Some (Num 50), lon = None, cityLabel = ''Y'',
                                  source = manual, lastUpdated = Num 7\<rparr>,
                     isLoading = False, error = None\<rparr>
   \<and> \<not> coordinates_paired \<lparr>lat = Some (Num 50), lon = None, cityLabel = ''Y'',
                             source = manual, lastUpdated = Num 7\<rparr>"
  by (simp add: rehydrate_def persist_def updateManual_def LocationProvider_initial_def
                LOCATION_STORAGE_KEY_def LEGACY_STORAGE_KEY_def LocationState_of_json_def
                stringify_location_def property_def coordinate_of_json_def json_of_coordinate_def
                json_of_number_def string_of_json_def number_of_json_def source_of_json_def
                json_of_source_def coordinates_paired_def)

end
